theory Spec2Isabelle
  imports Complex_Main
begin

section \<open>Data model\<close>

text \<open>
  Document ids are natural numbers. A value read from the request (a body field or a
  route parameter) is absent, present but not castable to the schema type (an id that is
  not an ObjectId, a string that is not a date), or given. JavaScript numbers are
  modelled exactly: prices and ratings as rationals, the stock and the review count as
  integers, dates as milliseconds since the epoch.
\<close>

type_synonym oid = nat

datatype 'a input = Absent | Malformed | Given 'a

datatype status = Pending | Active | Completed | Cancelled

datatype paymentStatus = PayPending | Paid | Refunded

text \<open>models/Car.js: the fields the booking and review code reads or writes.\<close>

record car =
  pricePerDay :: rat
  availability :: bool
  stock :: int
  rating :: rat
  numberOfReviews :: int

text \<open>models/Booking.js; a line of \<open>additionalServices\<close> is (serviceId, name, price).\<close>

record booking =
  userId :: oid
  vehicleId :: oid
  startDate :: int
  endDate :: int
  totalAmount :: rat
  status :: status
  paymentStatus :: paymentStatus
  additionalServices :: "(oid \<times> string \<times> rat) list"

text \<open>models/AdditionalService.js.\<close>

record service =
  name :: string
  price :: rat
  isActive :: bool

text \<open>models/Review.js.\<close>

record review =
  r_userId :: oid
  r_carId :: oid
  r_rating :: rat
  r_comment :: string

text \<open>
  The database: cars are looked up by id only; bookings, services and reviews are also
  queried by content, so they are kept as lists of (id, document) in insertion order.
\<close>

record store =
  cars :: "oid \<rightharpoonup> car"
  bookings :: "(oid \<times> booking) list"
  services :: "(oid \<times> service) list"
  reviews :: "(oid \<times> review) list"

text \<open>\<open>req.user\<close>, as the authentication middleware supplies it.\<close>

record caller =
  user_id :: oid
  user_role :: string

text \<open>
  Every error response or thrown error of the handlers below. A handler wrapped in
  \<open>asyncHandler\<close> passes a thrown error on (\<open>CastError\<close>, \<open>ValidationError\<close>,
  \<open>DuplicateKey\<close>); a handler with its own \<open>try/catch\<close> answers 500
  (\<open>InternalError\<close>).
\<close>

datatype error =
    VehicleNotFound
  | VehicleNotAvailable
  | AlreadyBooked
  | CastError
  | ValidationError
  | BookingNotFound
  | NotAuthorized
  | CannotModifyPast
  | OnlyCancel
  | MissingFields
  | MissingLocation
  | OutOfStock
  | IdRequired
  | InvalidIdFormat
  | InternalError
  | CarNotFound
  | AlreadyReviewed
  | DuplicateKey
  | ReviewNotFound
  | ServiceNotFound

text \<open>A fresh document id: one more than every id in use.\<close>

definition new_id :: "(oid \<times> 'a) list \<Rightarrow> oid" where
  "new_id xs = Suc (fold max (map fst xs) 0)"

text \<open>\<open>Model.findById\<close> on a list collection.\<close>

definition findById :: "(oid \<times> 'a) list \<Rightarrow> oid \<Rightarrow> 'a option" where
  "findById xs i = map_of xs i"

text \<open>\<open>deleteOne({_id})\<close>, \<open>findByIdAndDelete\<close>, \<open>doc.remove()\<close>.\<close>

definition deleteById :: "(oid \<times> 'a) list \<Rightarrow> oid \<Rightarrow> (oid \<times> 'a) list" where
  "deleteById xs i = filter (\<lambda>p. fst p \<noteq> i) xs"

text \<open>Writing document \<open>i\<close> back after a change.\<close>

definition replaceById :: "(oid \<times> 'a) list \<Rightarrow> oid \<Rightarrow> 'a \<Rightarrow> (oid \<times> 'a) list" where
  "replaceById xs i d = map (\<lambda>p. if fst p = i then (i, d) else p) xs"

text \<open>
  The \<open>pre('validate')\<close> hook of the booking schema: the end date must be after the
  start date. It runs on every \<open>save\<close> and \<open>create\<close> of a booking.
\<close>

definition booking_valid :: "booking \<Rightarrow> bool" where
  "booking_valid b \<longleftrightarrow> \<not> endDate b \<le> startDate b"

text \<open>The \<open>min: 0\<close> validator of the car's stock, run by \<open>car.save()\<close>.\<close>

definition car_valid :: "car \<Rightarrow> bool" where
  "car_valid c \<longleftrightarrow> 0 \<le> stock c"

section \<open>The booking controller\<close>

text \<open>The request body of a booking creation (both handlers read from it).\<close>

record body =
  vehicleId_in :: "oid input"
  startDate_in :: "int input"
  endDate_in :: "int input"
  additionalServices_in :: "oid input list"
  pickupLocation_in :: bool
  dropoffLocation_in :: bool
  totalAmount_in :: "rat input"

text \<open>
  The conflict query of \<open>createBooking\<close>: a pending or active booking of the vehicle
  that starts inside the requested range, ends inside it, or spans it.
\<close>

definition conflicting :: "oid \<Rightarrow> int \<Rightarrow> int \<Rightarrow> booking \<Rightarrow> bool" where
  "conflicting vid s e b \<longleftrightarrow>
     vehicleId b = vid \<and> (status b = Pending \<or> status b = Active) \<and>
     ((startDate b \<le> e \<and> startDate b \<ge> s) \<or>
      (endDate b \<ge> s \<and> endDate b \<le> e) \<or>
      (startDate b \<le> s \<and> endDate b \<ge> e))"

text \<open>\<open>Math.ceil((end - start) / (1000 * 60 * 60 * 24))\<close>.\<close>

definition durationInDays :: "int \<Rightarrow> int \<Rightarrow> int" where
  "durationInDays s e = \<lceil>(of_int (e - s) :: rat) / (1000 * 60 * 60 * 24)\<rceil>"

text \<open>\<open>AdditionalService.find({ _id: { $in: serviceIds } })\<close>: the catalog entries whose
  id was requested, each once, in catalog order.\<close>

definition findServices :: "(oid \<times> service) list \<Rightarrow> oid input list \<Rightarrow> (oid \<times> service) list" where
  "findServices cat ids = filter (\<lambda>p. Given (fst p) \<in> set ids) cat"

definition createBooking :: "caller \<Rightarrow> body \<Rightarrow> store \<Rightarrow> (error + oid \<times> booking) \<times> store" where
  "createBooking u bd st =
    (case vehicleId_in bd of
       Malformed \<Rightarrow> (Inl CastError, st)
     | Absent \<Rightarrow> (Inl VehicleNotFound, st)
     | Given vid \<Rightarrow>
        (case cars st vid of
           None \<Rightarrow> (Inl VehicleNotFound, st)
         | Some vehicle \<Rightarrow>
            if \<not> availability vehicle then (Inl VehicleNotAvailable, st)
            else
              (case (startDate_in bd, endDate_in bd) of
                 (Given s, Given e) \<Rightarrow>
                   (case find (conflicting vid s e) (map snd (bookings st)) of
                      Some b \<Rightarrow> (Inl AlreadyBooked, st)
                    | None \<Rightarrow>
                       if Malformed \<in> set (additionalServices_in bd) then (Inl CastError, st)
                       else
                         let days = durationInDays s e;
                             found = findServices (services st) (additionalServices_in bd);
                             additionalCost = sum_list (map (\<lambda>p. price (snd p)) found);
                             b = \<lparr> userId = user_id u, vehicleId = vid,
                                   startDate = s, endDate = e,
                                   totalAmount = pricePerDay vehicle * of_int days
                                                 + additionalCost * of_int days,
                                   status = Pending, paymentStatus = PayPending,
                                   additionalServices =
                                     map (\<lambda>p. (fst p, name (snd p), price (snd p))) found \<rparr>;
                             i = new_id (bookings st)
                         in if booking_valid b
                            then (Inr (i, b), st\<lparr>bookings := bookings st @ [(i, b)]\<rparr>)
                            else (Inl ValidationError, st))
               | _ \<Rightarrow> (Inl CastError, st))))"

text \<open>\<open>getBookings\<close>: every booking for an admin, the caller's own otherwise, newest first.\<close>

definition getBookings :: "caller \<Rightarrow> store \<Rightarrow> (oid \<times> booking) list" where
  "getBookings u st =
    rev (if user_role u \<noteq> ''admin''
         then filter (\<lambda>p. userId (snd p) = user_id u) (bookings st)
         else bookings st)"

definition getBooking :: "caller \<Rightarrow> oid input \<Rightarrow> store \<Rightarrow> error + booking" where
  "getBooking u pid st =
    (case pid of
       Malformed \<Rightarrow> Inl CastError
     | Absent \<Rightarrow> Inl BookingNotFound
     | Given i \<Rightarrow>
        (case findById (bookings st) i of
           None \<Rightarrow> Inl BookingNotFound
         | Some b \<Rightarrow>
            if userId b \<noteq> user_id u \<and> user_role u \<noteq> ''admin'' then Inl NotAuthorized
            else Inr b))"

text \<open>The \<open>enum\<close> of the booking's status field.\<close>

definition status_of_string :: "string \<Rightarrow> status option" where
  "status_of_string s =
    (if s = ''pending'' then Some Pending
     else if s = ''active'' then Some Active
     else if s = ''completed'' then Some Completed
     else if s = ''cancelled'' then Some Cancelled
     else None)"

text \<open>\<open>booking.save()\<close> of a changed booking: the validation hook, then the write.\<close>

definition saveBooking :: "oid \<Rightarrow> booking \<Rightarrow> store \<Rightarrow> store option" where
  "saveBooking i b st =
    (if booking_valid b then Some (st\<lparr>bookings := replaceById (bookings st) i b\<rparr>) else None)"

text \<open>\<open>updateBooking\<close>; \<open>now\<close> is the current time, \<open>s\<close> the requested status.\<close>

definition updateBooking ::
  "caller \<Rightarrow> oid input \<Rightarrow> string \<Rightarrow> int \<Rightarrow> store \<Rightarrow> (error + booking) \<times> store" where
  "updateBooking u pid s now st =
    (case pid of
       Malformed \<Rightarrow> (Inl CastError, st)
     | Absent \<Rightarrow> (Inl BookingNotFound, st)
     | Given i \<Rightarrow>
        (case findById (bookings st) i of
           None \<Rightarrow> (Inl BookingNotFound, st)
         | Some b \<Rightarrow>
            if userId b \<noteq> user_id u \<and> user_role u \<noteq> ''admin'' then (Inl NotAuthorized, st)
            else if user_role u \<noteq> ''admin'' \<and> startDate b \<le> now then (Inl CannotModifyPast, st)
            else if user_role u \<noteq> ''admin'' \<and> s \<noteq> ''cancelled'' then (Inl OnlyCancel, st)
            else
              (case status_of_string s of
                 None \<Rightarrow> (Inl ValidationError, st)
               | Some x \<Rightarrow>
                  (case saveBooking i (b\<lparr>status := x\<rparr>) st of
                     None \<Rightarrow> (Inl ValidationError, st)
                   | Some st' \<Rightarrow> (Inr (b\<lparr>status := x\<rparr>), st')))))"

definition deleteBooking :: "caller \<Rightarrow> oid input \<Rightarrow> store \<Rightarrow> (error + unit) \<times> store" where
  "deleteBooking u pid st =
    (if user_role u \<noteq> ''admin'' then (Inl NotAuthorized, st)
     else
       (case pid of
          Malformed \<Rightarrow> (Inl CastError, st)
        | Absent \<Rightarrow> (Inl BookingNotFound, st)
        | Given i \<Rightarrow>
           (case findById (bookings st) i of
              None \<Rightarrow> (Inl BookingNotFound, st)
            | Some b \<Rightarrow> (Inr (), st\<lparr>bookings := deleteById (bookings st) i\<rparr>))))"

section \<open>The booking routes\<close>

text \<open>
  The stock restoration that the create handler's \<open>catch\<close> block and two delete
  routes repeat: \<open>car.stock += 1; if (!car.availability && car.stock > 0)
  car.availability = true\<close>.
\<close>

definition restoreStock :: "car \<Rightarrow> car" where
  "restoreStock c =
    (let c1 = c\<lparr>stock := stock c + 1\<rparr>
     in if \<not> availability c1 \<and> stock c1 > 0 then c1\<lparr>availability := True\<rparr> else c1)"

text \<open>\<open>car.save()\<close>: the validator, then the write.\<close>

definition saveCar :: "oid \<Rightarrow> car \<Rightarrow> store \<Rightarrow> store option" where
  "saveCar vid c st = (if car_valid c then Some (st\<lparr>cars := (cars st)(vid \<mapsto> c)\<rparr>) else None)"

text \<open>The \<open>catch\<close> block of the create handler: it restores the stock of the request's
  car whenever the car is found, and swallows a failure of its own.\<close>

definition catchRestore :: "oid \<Rightarrow> store \<Rightarrow> store" where
  "catchRestore vid st =
    (case cars st vid of
       None \<Rightarrow> st
     | Some c \<Rightarrow> (case saveCar vid (restoreStock c) st of None \<Rightarrow> st | Some st' \<Rightarrow> st'))"

text \<open>The stock update of the create handler: \<open>car.stock -= 1; if (car.stock === 0)
  car.availability = false\<close>.\<close>

definition takeStock :: "car \<Rightarrow> car" where
  "takeStock c =
    (let c1 = c\<lparr>stock := stock c - 1\<rparr>
     in if stock c1 = 0 then c1\<lparr>availability := False\<rparr> else c1)"

text \<open>The document \<open>new Booking({...})\<close> of the create handler, when \<open>save\<close> accepts it:
  both dates and the total must cast, and the end must be after the start. The total is
  the one the request supplies.\<close>

definition newBooking :: "caller \<Rightarrow> oid \<Rightarrow> body \<Rightarrow> booking option" where
  "newBooking u vid bd =
    (case (startDate_in bd, endDate_in bd, totalAmount_in bd) of
       (Given s, Given e, Given t) \<Rightarrow>
         let b = \<lparr> userId = user_id u, vehicleId = vid,
                   startDate = s, endDate = e, totalAmount = t,
                   status = Pending, paymentStatus = PayPending,
                   additionalServices = [] \<rparr>
         in if booking_valid b then Some b else None
     | _ \<Rightarrow> None)"

text \<open>\<open>router.post('/')\<close>. Any error after the first checks lands in the \<open>catch\<close>
  block.\<close>

definition post_booking :: "caller \<Rightarrow> body \<Rightarrow> store \<Rightarrow> (error + oid \<times> booking) \<times> store" where
  "post_booking u bd st =
    (if vehicleId_in bd = Absent \<or> startDate_in bd = Absent \<or> endDate_in bd = Absent
     then (Inl MissingFields, st)
     else if \<not> pickupLocation_in bd \<or> \<not> dropoffLocation_in bd then (Inl MissingLocation, st)
     else
       (case vehicleId_in bd of
          Given vid \<Rightarrow>
            (case cars st vid of
               None \<Rightarrow> (Inl CarNotFound, st)
             | Some c \<Rightarrow>
                if \<not> availability c then (Inl VehicleNotAvailable, st)
                else if stock c \<le> 0 then (Inl OutOfStock, st)
                else
                  (case saveCar vid (takeStock c) st of
                     None \<Rightarrow> (Inl InternalError, catchRestore vid st)
                   | Some st1 \<Rightarrow>
                      (case newBooking u vid bd of
                         None \<Rightarrow> (Inl InternalError, catchRestore vid st1)
                       | Some b \<Rightarrow>
                          (Inr (new_id (bookings st1), b),
                           st1\<lparr>bookings := bookings st1 @ [(new_id (bookings st1), b)]\<rparr>))))
        | _ \<Rightarrow> (Inl InternalError, st)))"

text \<open>\<open>router.get('/')\<close> and \<open>router.get('/user/:userId')\<close>, the listings.\<close>

definition get_bookings :: "caller \<Rightarrow> store \<Rightarrow> (oid \<times> booking) list" where
  "get_bookings u st =
    rev (if user_role u \<noteq> ''admin''
         then filter (\<lambda>p. userId (snd p) = user_id u) (bookings st)
         else bookings st)"

definition get_user_bookings :: "caller \<Rightarrow> oid \<Rightarrow> store \<Rightarrow> error + (oid \<times> booking) list" where
  "get_user_bookings u uid st =
    (if user_id u \<noteq> uid \<and> user_role u \<noteq> ''admin'' then Inl NotAuthorized
     else Inr (rev (filter (\<lambda>p. userId (snd p) = uid) (bookings st))))"

text \<open>\<open>router.get('/:id')\<close>.\<close>

definition get_booking :: "caller \<Rightarrow> oid input \<Rightarrow> store \<Rightarrow> error + booking" where
  "get_booking u pid st =
    (case pid of
       Given i \<Rightarrow>
        (case findById (bookings st) i of
           None \<Rightarrow> Inl BookingNotFound
         | Some b \<Rightarrow>
            if user_role u \<noteq> ''admin'' \<and> userId b \<noteq> user_id u then Inl NotAuthorized
            else Inr b)
     | _ \<Rightarrow> Inl InvalidIdFormat)"

text \<open>\<open>router.put('/:id/approve')\<close> and \<open>router.put('/:id/reject')\<close>: the caller is
  authenticated but never looked at.\<close>

definition put_approve :: "caller \<Rightarrow> oid input \<Rightarrow> store \<Rightarrow> (error + booking) \<times> store" where
  "put_approve u pid st =
    (case pid of
       Malformed \<Rightarrow> (Inl InternalError, st)
     | Absent \<Rightarrow> (Inl BookingNotFound, st)
     | Given i \<Rightarrow>
        (case findById (bookings st) i of
           None \<Rightarrow> (Inl BookingNotFound, st)
         | Some b \<Rightarrow>
            (case saveBooking i (b\<lparr>status := Active\<rparr>) st of
               None \<Rightarrow> (Inl InternalError, st)
             | Some st' \<Rightarrow> (Inr (b\<lparr>status := Active\<rparr>), st'))))"

definition put_reject :: "caller \<Rightarrow> oid input \<Rightarrow> store \<Rightarrow> (error + booking) \<times> store" where
  "put_reject u pid st =
    (case pid of
       Malformed \<Rightarrow> (Inl InternalError, st)
     | Absent \<Rightarrow> (Inl BookingNotFound, st)
     | Given i \<Rightarrow>
        (case findById (bookings st) i of
           None \<Rightarrow> (Inl BookingNotFound, st)
         | Some b \<Rightarrow>
            (case saveBooking i (b\<lparr>status := Cancelled\<rparr>) st of
               None \<Rightarrow> (Inl InternalError, st)
             | Some st' \<Rightarrow> (Inr (b\<lparr>status := Cancelled\<rparr>), st'))))"

text \<open>\<open>router.put('/:id/cancel')\<close>.\<close>

definition put_cancel :: "caller \<Rightarrow> oid input \<Rightarrow> store \<Rightarrow> (error + booking) \<times> store" where
  "put_cancel u pid st =
    (case pid of
       Absent \<Rightarrow> (Inl IdRequired, st)
     | Malformed \<Rightarrow> (Inl InvalidIdFormat, st)
     | Given i \<Rightarrow>
        (case findById (bookings st) i of
           None \<Rightarrow> (Inl BookingNotFound, st)
         | Some b \<Rightarrow>
            if userId b \<noteq> user_id u \<and> user_role u \<noteq> ''admin'' then (Inl NotAuthorized, st)
            else
              (case saveBooking i (b\<lparr>status := Cancelled\<rparr>) st of
                 None \<Rightarrow> (Inl InternalError, st)
               | Some st' \<Rightarrow> (Inr (b\<lparr>status := Cancelled\<rparr>), st'))))"

text \<open>The first \<open>router.delete('/:id')\<close>, the one Express dispatches to.\<close>

definition delete_booking :: "caller \<Rightarrow> oid input \<Rightarrow> store \<Rightarrow> (error + unit) \<times> store" where
  "delete_booking u pid st =
    (case pid of
       Absent \<Rightarrow> (Inl IdRequired, st)
     | Malformed \<Rightarrow> (Inl InvalidIdFormat, st)
     | Given i \<Rightarrow>
        (case findById (bookings st) i of
           None \<Rightarrow> (Inl BookingNotFound, st)
         | Some b \<Rightarrow>
            if userId b \<noteq> user_id u \<and> user_role u \<noteq> ''admin'' then (Inl NotAuthorized, st)
            else (Inr (), st\<lparr>bookings := deleteById (bookings st) i\<rparr>)))"

text \<open>The second \<open>router.delete('/:id')\<close>: no authorization check; the booking is
  deleted first (it was just found, so \<open>deleteOne\<close> deletes one document), then the
  stock of its car is restored.\<close>

definition delete_booking_restoring :: "caller \<Rightarrow> oid input \<Rightarrow> store \<Rightarrow> (error + unit) \<times> store" where
  "delete_booking_restoring u pid st =
    (case pid of
       Given i \<Rightarrow>
        (case findById (bookings st) i of
           None \<Rightarrow> (Inl BookingNotFound, st)
         | Some b \<Rightarrow>
            let st1 = st\<lparr>bookings := deleteById (bookings st) i\<rparr>
            in (case cars st1 (vehicleId b) of
                  None \<Rightarrow> (Inr (), st1)
                | Some c \<Rightarrow>
                   (case saveCar (vehicleId b) (restoreStock c) st1 of
                      None \<Rightarrow> (Inl InternalError, st1)
                    | Some st2 \<Rightarrow> (Inr (), st2))))
     | _ \<Rightarrow> (Inl InvalidIdFormat, st))"

text \<open>\<open>router.delete('/emergency/:id')\<close>: no authentication either, so no caller.\<close>

definition delete_emergency :: "oid input \<Rightarrow> store \<Rightarrow> (error + unit) \<times> store" where
  "delete_emergency pid st =
    (case pid of
       Given i \<Rightarrow>
        let st1 = st\<lparr>bookings := deleteById (bookings st) i\<rparr>
        in (case findById (bookings st) i of
              None \<Rightarrow> (Inr (), st1)
            | Some b \<Rightarrow>
               (case cars st1 (vehicleId b) of
                  None \<Rightarrow> (Inr (), st1)
                | Some c \<Rightarrow>
                   (case saveCar (vehicleId b) (restoreStock c) st1 of
                      None \<Rightarrow> (Inr (), st1)
                    | Some st2 \<Rightarrow> (Inr (), st2))))
     | _ \<Rightarrow> (Inl InternalError, st))"

section \<open>Reviews\<close>

text \<open>The body of a review creation and of a review update; the update's body is
  spread into the update, so every field of the review can be set.\<close>

record review_body =
  carId_in :: "oid input"
  rating_in :: "rat input"
  comment_in :: "string option"
  userId_in :: "oid option"
  userName_in :: "string option"

record review_update =
  new_rating :: "rat input"
  new_comment :: "string option"
  new_carId :: "oid option"
  new_userId :: "oid option"

definition whitespace :: "char \<Rightarrow> bool" where
  "whitespace c \<longleftrightarrow> c = CHR '' '' \<or> c = CHR 0x09 \<or> c = CHR 0x0A \<or> c = CHR 0x0D"

text \<open>The \<open>trim: true\<close> setter of the comment.\<close>

definition trim :: "string \<Rightarrow> string" where
  "trim s = rev (dropWhile whitespace (rev (dropWhile whitespace s)))"

text \<open>\<open>Math.round\<close>: the nearest integer, a half rounded up.\<close>

definition Math_round :: "rat \<Rightarrow> int" where
  "Math_round x = \<lfloor>x + 1 / 2\<rfloor>"

text \<open>\<open>find({ carId })\<close> on the reviews.\<close>

definition reviewsOf :: "oid \<Rightarrow> store \<Rightarrow> (oid \<times> review) list" where
  "reviewsOf cid st = filter (\<lambda>p. r_carId (snd p) = cid) (reviews st)"

text \<open>The average that \<open>getAverageRating\<close> computes from the reviews it found.\<close>

definition avgRating :: "(oid \<times> review) list \<Rightarrow> rat" where
  "avgRating rs =
    (if int (length rs) > 0
     then of_int (Math_round ((sum_list (map (\<lambda>p. r_rating (snd p)) rs) / of_int (int (length rs))) * 10)) / 10
     else 0)"

text \<open>\<open>ReviewSchema.statics.getAverageRating\<close>: \<open>findByIdAndUpdate\<close> does nothing when
  the car does not exist.\<close>

definition getAverageRating :: "oid \<Rightarrow> store \<Rightarrow> store" where
  "getAverageRating cid st =
    (let rs = reviewsOf cid st
     in (case cars st cid of
           None \<Rightarrow> st
         | Some c \<Rightarrow>
            st\<lparr>cars := (cars st)(cid \<mapsto> c\<lparr>rating := avgRating rs,
                                              numberOfReviews := int (length rs)\<rparr>)\<rparr>))"

text \<open>The unique index on (userId, carId): is the pair taken by a review other than
  \<open>i\<close>?\<close>

definition pairTaken :: "(oid \<times> review) list \<Rightarrow> oid \<Rightarrow> oid \<Rightarrow> oid \<Rightarrow> bool" where
  "pairTaken rs i uid cid \<longleftrightarrow>
     list_ex (\<lambda>p. fst p \<noteq> i \<and> r_userId (snd p) = uid \<and> r_carId (snd p) = cid) rs"

text \<open>\<open>Review.create\<close>: the validators (userId and userName required, rating a number
  from 1 to 5, a comment that is not empty once trimmed), the unique index, the insert
  and the \<open>post('save')\<close> hook.\<close>

definition Review_create ::
  "oid option \<Rightarrow> string option \<Rightarrow> oid \<Rightarrow> rat input \<Rightarrow> string option \<Rightarrow> store
     \<Rightarrow> (error + oid \<times> review) \<times> store" where
  "Review_create uid uname cid rt cm st =
    (case (uid, uname, rt, cm) of
       (Some w, Some n, Given x, Some c) \<Rightarrow>
         if n = [] \<or> x < 1 \<or> 5 < x \<or> trim c = [] then (Inl ValidationError, st)
         else
           let i = new_id (reviews st);
               r = \<lparr> r_userId = w, r_carId = cid, r_rating = x, r_comment = trim c \<rparr>
           in if pairTaken (reviews st) i w cid then (Inl DuplicateKey, st)
              else (Inr (i, r), getAverageRating cid (st\<lparr>reviews := reviews st @ [(i, r)]\<rparr>))
     | _ \<Rightarrow> (Inl ValidationError, st))"

text \<open>\<open>createReview\<close>: the route is public, so \<open>req.user\<close> may be missing; a caller
  that is authenticated reviews under its own id and the name of its user record.\<close>

definition createReview ::
  "caller option \<Rightarrow> string \<Rightarrow> review_body \<Rightarrow> store \<Rightarrow> (error + oid \<times> review) \<times> store" where
  "createReview u uname bd st =
    (case carId_in bd of
       Malformed \<Rightarrow> (Inl CastError, st)
     | Absent \<Rightarrow> (Inl CarNotFound, st)
     | Given cid \<Rightarrow>
        (case cars st cid of
           None \<Rightarrow> (Inl CarNotFound, st)
         | Some c \<Rightarrow>
            (case u of
               Some usr \<Rightarrow>
                 if list_ex (\<lambda>p. r_userId (snd p) = user_id usr \<and> r_carId (snd p) = cid) (reviews st)
                 then (Inl AlreadyReviewed, st)
                 else Review_create (Some (user_id usr)) (Some uname) cid (rating_in bd) (comment_in bd) st
             | None \<Rightarrow>
                 Review_create (userId_in bd) (userName_in bd) cid (rating_in bd) (comment_in bd) st)))"

text \<open>The review after \<open>findByIdAndUpdate(id, { ...req.body })\<close>.\<close>

definition applyUpdate :: "review_update \<Rightarrow> review \<Rightarrow> review" where
  "applyUpdate up r =
    \<lparr> r_userId = (case new_userId up of Some w \<Rightarrow> w | None \<Rightarrow> r_userId r),
      r_carId = (case new_carId up of Some c \<Rightarrow> c | None \<Rightarrow> r_carId r),
      r_rating = (case new_rating up of Given x \<Rightarrow> x | _ \<Rightarrow> r_rating r),
      r_comment = (case new_comment up of Some c \<Rightarrow> trim c | None \<Rightarrow> r_comment r) \<rparr>"

text \<open>The update validators (\<open>runValidators: true\<close>) look at the fields the update sets.\<close>

definition update_valid :: "review_update \<Rightarrow> bool" where
  "update_valid up \<longleftrightarrow>
     (case new_rating up of Given x \<Rightarrow> 1 \<le> x \<and> x \<le> 5 | Absent \<Rightarrow> True | Malformed \<Rightarrow> False) \<and>
     (case new_comment up of Some c \<Rightarrow> trim c \<noteq> [] | None \<Rightarrow> True)"

text \<open>\<open>updateReview\<close>; the \<open>post('findOneAndUpdate')\<close> hook recomputes the car of the
  updated document.\<close>

definition updateReview ::
  "caller \<Rightarrow> oid input \<Rightarrow> review_update \<Rightarrow> store \<Rightarrow> (error + review) \<times> store" where
  "updateReview u pid up st =
    (case pid of
       Malformed \<Rightarrow> (Inl CastError, st)
     | Absent \<Rightarrow> (Inl ReviewNotFound, st)
     | Given i \<Rightarrow>
        (case findById (reviews st) i of
           None \<Rightarrow> (Inl ReviewNotFound, st)
         | Some r \<Rightarrow>
            if r_userId r \<noteq> user_id u \<and> user_role u \<noteq> ''admin'' then (Inl NotAuthorized, st)
            else if new_rating up = Malformed then (Inl CastError, st)
            else if \<not> update_valid up then (Inl ValidationError, st)
            else
              let r' = applyUpdate up r
              in if pairTaken (reviews st) i (r_userId r') (r_carId r') then (Inl DuplicateKey, st)
                 else (Inr r', getAverageRating (r_carId r')
                                 (st\<lparr>reviews := replaceById (reviews st) i r'\<rparr>))))"

text \<open>\<open>deleteReview\<close>; the \<open>post('remove')\<close> hook recomputes the car of the removed
  review.\<close>

definition deleteReview :: "caller \<Rightarrow> oid input \<Rightarrow> store \<Rightarrow> (error + unit) \<times> store" where
  "deleteReview u pid st =
    (case pid of
       Malformed \<Rightarrow> (Inl CastError, st)
     | Absent \<Rightarrow> (Inl ReviewNotFound, st)
     | Given i \<Rightarrow>
        (case findById (reviews st) i of
           None \<Rightarrow> (Inl ReviewNotFound, st)
         | Some r \<Rightarrow>
            if r_userId r \<noteq> user_id u \<and> user_role u \<noteq> ''admin'' then (Inl NotAuthorized, st)
            else (Inr (), getAverageRating (r_carId r)
                            (st\<lparr>reviews := deleteById (reviews st) i\<rparr>))))"

section \<open>The service catalog\<close>





section \<open>The car administration\<close>







section \<open>Sequences of requests\<close>




text \<open>Every car of the store has a stock that is not negative.\<close>

definition stock_ok :: "store \<Rightarrow> bool" where
  "stock_ok st \<longleftrightarrow> (\<forall>i c. cars st i = Some c \<longrightarrow> 0 \<le> stock c)"



section \<open>Example stores and requests\<close>

text \<open>One car at 50 a day with a single unit in stock, a GPS service at 10 a day, two
  customers and a request for 1 to 3 January 2024 (UTC, in milliseconds).\<close>

definition car50 :: car where
  "car50 = \<lparr> pricePerDay = 50, availability = True, stock = 1, rating = 0, numberOfReviews = 0 \<rparr>"

definition gps :: service where
  "gps = \<lparr> name = ''GPS'', price = 10, isActive = True \<rparr>"

definition store0 :: store where
  "store0 = \<lparr> cars = [1 \<mapsto> car50], bookings = [], services = [(1, gps)], reviews = [] \<rparr>"

definition alice :: caller where
  "alice = \<lparr> user_id = 7, user_role = ''user'' \<rparr>"

definition bob :: caller where
  "bob = \<lparr> user_id = 8, user_role = ''user'' \<rparr>"

definition jan1 :: int where
  "jan1 = 1704067200000"

definition jan3 :: int where
  "jan3 = 1704240000000"

definition request0 :: body where
  "request0 = \<lparr> vehicleId_in = Given 1, startDate_in = Given jan1, endDate_in = Given jan3,
                 additionalServices_in = [], pickupLocation_in = True, dropoffLocation_in = True,
                 totalAmount_in = Given 100 \<rparr>"

definition jan5 :: int where
  "jan5 = 1704412800000"

text \<open>Alice's booking of the car for 1 to 3 January, as either create handler stores it,
  and the same with the GPS service.\<close>

definition booking100 :: booking where
  "booking100 = \<lparr> userId = 7, vehicleId = 1, startDate = jan1, endDate = jan3, totalAmount = 100,
                   status = Pending, paymentStatus = PayPending, additionalServices = [] \<rparr>"

definition booking120 :: booking where
  "booking120 = \<lparr> userId = 7, vehicleId = 1, startDate = jan1, endDate = jan3, totalAmount = 120,
                   status = Pending, paymentStatus = PayPending,
                   additionalServices = [(1, ''GPS'', 10)] \<rparr>"

text \<open>The store once the controller has created that booking, and a request for 3 to 5
  January: the two ranges share 3 January.\<close>

definition booked0 :: store where
  "booked0 = store0\<lparr>bookings := [(1, booking100)]\<rparr>"

definition request1 :: body where
  "request1 = request0\<lparr>startDate_in := Given jan3, endDate_in := Given jan5\<rparr>"

text \<open>The same car with nothing in stock, still marked available.\<close>

definition soldout :: store where
  "soldout = store0\<lparr>cars := [1 \<mapsto> car50\<lparr>stock := 0\<rparr>]\<rparr>"

text \<open>The store after Alice's booking through the route handler (the unit is taken),
  and after she has cancelled it.\<close>

definition taken0 :: store where
  "taken0 = store0\<lparr>cars := [1 \<mapsto> car50\<lparr>stock := 0, availability := False\<rparr>],
                    bookings := [(1, booking100)]\<rparr>"

definition cancelled0 :: store where
  "cancelled0 = taken0\<lparr>bookings := [(1, booking100\<lparr>status := Cancelled\<rparr>)]\<rparr>"

definition admin :: caller where
  "admin = \<lparr> user_id = 1, user_role = ''admin'' \<rparr>"

text \<open>Two cars; Alice's review of the first, the update that moves it to the second, and
  the store with her review in place.\<close>

definition twocars :: store where
  "twocars = store0\<lparr>cars := [1 \<mapsto> car50, 2 \<mapsto> car50]\<rparr>"

definition praise :: review_body where
  "praise = \<lparr> carId_in = Given 1, rating_in = Given 5, comment_in = Some ''great'',
               userId_in = None, userName_in = None \<rparr>"

definition move_to_2 :: review_update where
  "move_to_2 = \<lparr> new_rating = Absent, new_comment = None, new_carId = Some 2, new_userId = None \<rparr>"



section \<open>The stock never goes below zero\<close>

lemma stock_restoreStock: "stock (restoreStock c) = stock c + 1"
  by (simp add: restoreStock_def Let_def)

lemma stock_ok_cars_eq: "cars st' = cars st \<Longrightarrow> stock_ok st' = stock_ok st"
  by (simp add: stock_ok_def)


lemma stock_ok_lookup: "stock_ok st \<Longrightarrow> cars st i = Some c \<Longrightarrow> 0 \<le> stock c"
  by (auto simp add: stock_ok_def)


































section \<open>Date conflicts\<close>

lemma overlap_conflicting:
  "vehicleId b = vid \<Longrightarrow> status b = Pending \<or> status b = Active \<Longrightarrow>
   startDate b \<le> e \<Longrightarrow> s \<le> endDate b \<Longrightarrow> conflicting vid s e b"
  unfolding conflicting_def by linarith

lemma find_conflicting:
  "(i, b) \<in> set bs \<Longrightarrow> conflicting vid s e b \<Longrightarrow> find (conflicting vid s e) (map snd bs) \<noteq> None"
proof -
  assume a: "(i, b) \<in> set bs" and c: "conflicting vid s e b"
  from a have "b \<in> set (map snd bs)" by force
  with c show ?thesis by (auto simp add: find_None_iff)
qed

text \<open>
  C1, as the code has it. The controller's \<open>createBooking\<close> refuses a request whose
  range overlaps, bounds included (\<open>s1 \<le> e2\<close> and \<open>e1 \<ge> s2\<close>), a pending or active
  booking of the same vehicle: it answers with an error and leaves the store as it was,
  and when the vehicle exists and is available the error is the one for a date conflict.
\<close>

theorem createBooking_rejects_overlap:
  assumes "(i, b) \<in> set (bookings st)"
    and "vehicleId b = vid" and "status b = Pending \<or> status b = Active"
    and "startDate b \<le> e" and "s \<le> endDate b"
    and "vehicleId_in bd = Given vid" and "startDate_in bd = Given s" and "endDate_in bd = Given e"
  shows "(\<exists>err. createBooking u bd st = (Inl err, st)) \<and>
         (\<forall>c. cars st vid = Some c \<and> availability c \<longrightarrow>
              createBooking u bd st = (Inl AlreadyBooked, st))"
proof -
  have c: "conflicting vid s e b"
    using assms(2-5) by (rule overlap_conflicting)
  have f: "find (conflicting vid s e) (map snd (bookings st)) \<noteq> None"
    by (rule find_conflicting [OF assms(1) c])
  show ?thesis
  proof (cases "cars st vid")
    case None
    then show ?thesis using assms(6) by (simp add: createBooking_def)
  next
    case (Some c)
    then show ?thesis using assms(6-8) f
      by (auto simp add: createBooking_def)
  qed
qed

theorem createBooking_rejects_overlap_witness:
  "(1, booking100) \<in> set (bookings booked0) \<and> vehicleId booking100 = 1 \<and> status booking100 = Pending
   \<and> startDate booking100 \<le> jan5 \<and> jan3 \<le> endDate booking100
   \<and> createBooking bob request1 booked0 = (Inl AlreadyBooked, booked0)"
  using createBooking_rejects_overlap [of 1 booking100 booked0 1 jan5 jan3 request1 bob]
  by (simp add: booked0_def booking100_def store0_def request1_def request0_def car50_def
      jan1_def jan3_def jan5_def)

text \<open>
  C1 as stated fails on the route handler \<open>router.post('/')\<close>, which looks at the stock
  and never at the dates: with Alice's pending booking for 1 to 3 January in the store,
  Bob's request for 3 to 5 January on the same car is accepted and stored.
\<close>

theorem post_booking_accepts_overlap:
  "(1, booking100) \<in> set (bookings booked0) \<and> vehicleId booking100 = 1 \<and> status booking100 = Pending
   \<and> startDate booking100 \<le> jan5 \<and> jan3 \<le> endDate booking100
   \<and> fst (post_booking bob request1 booked0)
       = Inr (2, \<lparr> userId = 8, vehicleId = 1, startDate = jan3, endDate = jan5, totalAmount = 100,
                   status = Pending, paymentStatus = PayPending, additionalServices = [] \<rparr>)
   \<and> map fst (bookings (snd (post_booking bob request1 booked0))) = [1, 2]"
  by (simp add: post_booking_def booked0_def booking100_def store0_def request1_def request0_def
      car50_def jan1_def jan3_def jan5_def saveCar_def takeStock_def car_valid_def newBooking_def
      booking_valid_def bob_def new_id_def Let_def)


section \<open>The total of a booking\<close>










section \<open>The stock on creation\<close>

text \<open>When the create handler fails after it has taken a unit, its \<open>catch\<close> block puts
  the car back as it was.\<close>

lemma cars_catchRestore_takeStock:
  assumes "availability c" and "0 < stock c"
  shows "catchRestore vid (st\<lparr>cars := (cars st)(vid \<mapsto> takeStock c)\<rparr>) = st\<lparr>cars := (cars st)(vid \<mapsto> c)\<rparr>"
  using assms
  by (cases c) (auto simp add: catchRestore_def saveCar_def restoreStock_def takeStock_def car_valid_def Let_def)






section \<open>Cancellation and deletion against the stock\<close>

lemmas ex_defs = store0_def car50_def gps_def alice_def bob_def jan1_def jan3_def jan5_def
  request0_def request1_def booking100_def booking120_def booked0_def soldout_def

text \<open>Alice books the only unit through the route handler: the stock drops to 0 and the
  car becomes unavailable.\<close>

lemma post_booking_takes_last_unit:
  "post_booking alice request0 store0 = (Inr (1, booking100), taken0)"
  by (simp add: post_booking_def taken0_def ex_defs saveCar_def takeStock_def car_valid_def
      newBooking_def booking_valid_def new_id_def Let_def)

text \<open>
  C3, evaluated on the code. After that booking Alice cancels it through
  \<open>router.put('/:id/cancel')\<close>: the booking is cancelled, and the car still has stock 0
  and is still unavailable. A second cancellation changes nothing.
\<close>

theorem put_cancel_keeps_stock:
  "cars taken0 1 = Some (car50\<lparr>stock := 0, availability := False\<rparr>) \<and>
   put_cancel alice (Given 1) taken0 = (Inr (booking100\<lparr>status := Cancelled\<rparr>), cancelled0) \<and>
   cars cancelled0 1 = Some (car50\<lparr>stock := 0, availability := False\<rparr>) \<and>
   put_cancel alice (Given 1) cancelled0 = (Inr (booking100\<lparr>status := Cancelled\<rparr>), cancelled0)"
  by (simp add: post_booking_def put_cancel_def taken0_def cancelled0_def ex_defs saveCar_def
      takeStock_def car_valid_def newBooking_def booking_valid_def new_id_def Let_def
      findById_def saveBooking_def replaceById_def)

text \<open>The second delete route does restore the stock, once, for a booking in any
  status.\<close>

lemma delete_booking_restoring_restores:
  assumes "findById (bookings st) i = Some b" and "cars st (vehicleId b) = Some c"
    and "0 \<le> stock c"
  shows "delete_booking_restoring u (Given i) st
           = (Inr (), st\<lparr>bookings := deleteById (bookings st) i,
                          cars := (cars st)(vehicleId b \<mapsto> restoreStock c)\<rparr>)"
    and "stock (restoreStock c) = stock c + 1"
    and "availability (restoreStock c)"
  using assms
  by (simp_all add: delete_booking_restoring_def saveCar_def car_valid_def restoreStock_def Let_def)


text \<open>
  C4, evaluated on the code. After the same booking, Alice deletes it through the first
  \<open>router.delete('/:id')\<close>: the booking is gone, and the car still has stock 0 and is
  still unavailable.
\<close>

theorem delete_booking_keeps_stock:
  "cars taken0 1 = Some (car50\<lparr>stock := 0, availability := False\<rparr>) \<and>
   delete_booking alice (Given 1) taken0 = (Inr (), taken0\<lparr>bookings := []\<rparr>) \<and>
   cars (taken0\<lparr>bookings := []\<rparr>) 1 = Some (car50\<lparr>stock := 0, availability := False\<rparr>)"
  by (simp add: post_booking_def delete_booking_def taken0_def ex_defs saveCar_def
      takeStock_def car_valid_def newBooking_def booking_valid_def new_id_def Let_def
      findById_def deleteById_def)

section \<open>Authorization\<close>

text \<open>Where the handlers check: a caller who is neither the owner nor an admin is refused
  and the store is left as it was, and the listings of a caller who is not an admin hold
  the caller's own bookings only.\<close>

lemma forbidden_where_checked:
  assumes "findById (bookings st) i = Some b"
    and "userId b \<noteq> user_id u" and "user_role u \<noteq> ''admin''"
  shows "getBooking u (Given i) st = Inl NotAuthorized"
    and "get_booking u (Given i) st = Inl NotAuthorized"
    and "updateBooking u (Given i) s now st = (Inl NotAuthorized, st)"
    and "put_cancel u (Given i) st = (Inl NotAuthorized, st)"
    and "delete_booking u (Given i) st = (Inl NotAuthorized, st)"
    and "deleteBooking u (Given i) st = (Inl NotAuthorized, st)"
  using assms
  by (simp_all add: getBooking_def get_booking_def updateBooking_def put_cancel_def
      delete_booking_def deleteBooking_def)

lemma listings_scoped:
  assumes "user_role u \<noteq> ''admin''"
  shows "\<forall>p \<in> set (getBookings u st). userId (snd p) = user_id u"
    and "\<forall>p \<in> set (get_bookings u st). userId (snd p) = user_id u"
    and "uid \<noteq> user_id u \<longrightarrow> get_user_bookings u uid st = Inl NotAuthorized"
    and "\<forall>p \<in> set (projr (get_user_bookings u (user_id u) st)). userId (snd p) = user_id u"
  using assms
  by (auto simp add: getBookings_def get_bookings_def get_user_bookings_def)

text \<open>
  C9, evaluated on the code. Bob is neither the owner of Alice's booking nor an admin.
  The emergency route (which takes no caller at all) and the second delete route delete
  the booking and restore the stock; approve and reject change its status for him.
\<close>

theorem delete_emergency_unguarded:
  "userId booking100 \<noteq> user_id bob \<and> user_role bob \<noteq> ''admin'' \<and>
   findById (bookings taken0) 1 = Some booking100 \<and>
   delete_emergency (Given 1) taken0 = (Inr (), store0) \<and>
   delete_booking_restoring bob (Given 1) taken0 = (Inr (), store0) \<and>
   fst (put_approve bob (Given 1) taken0) = Inr (booking100\<lparr>status := Active\<rparr>) \<and>
   fst (put_reject bob (Given 1) taken0) = Inr (booking100\<lparr>status := Cancelled\<rparr>)"
  by (simp add: delete_emergency_def delete_booking_restoring_def put_approve_def put_reject_def
      taken0_def ex_defs saveCar_def restoreStock_def car_valid_def booking_valid_def Let_def
      findById_def deleteById_def saveBooking_def replaceById_def)

section \<open>The status of a booking\<close>

lemma findById_replaceById:
  "findById xs i = Some b \<Longrightarrow> findById (replaceById xs i d) i = Some d"
  unfolding findById_def replaceById_def
  by (induction xs) (auto split: if_splits)

lemma saveBooking_status:
  assumes "findById (bookings st) i = Some b" and "booking_valid b"
  shows "\<exists>st'. saveBooking i (b\<lparr>status := x\<rparr>) st = Some st'
               \<and> findById (bookings st') i = Some (b\<lparr>status := x\<rparr>)"
  using assms by (simp add: saveBooking_def booking_valid_def findById_replaceById)

text \<open>
  C7, as the code has it. No handler looks at the current status of a booking. For a
  stored booking (whose dates pass the validation hook), whatever its status: approve
  sets the status to active, reject sets it to cancelled, cancel by the owner or an admin
  sets it to cancelled, \<open>updateBooking\<close> by an admin sets whichever of the four
  statuses the request names; \<open>updateBooking\<close> by anyone else changes the status only
  to cancelled, only for the owner and only before the start date.
\<close>

theorem status_set_whatever_it_was:
  assumes "findById (bookings st) i = Some b" and "booking_valid b"
  shows "fst (put_approve u (Given i) st) = Inr (b\<lparr>status := Active\<rparr>)
       \<and> findById (bookings (snd (put_approve u (Given i) st))) i = Some (b\<lparr>status := Active\<rparr>)
       \<and> fst (put_reject u (Given i) st) = Inr (b\<lparr>status := Cancelled\<rparr>)
       \<and> findById (bookings (snd (put_reject u (Given i) st))) i = Some (b\<lparr>status := Cancelled\<rparr>)
       \<and> (userId b = user_id u \<or> user_role u = ''admin'' \<longrightarrow>
            fst (put_cancel u (Given i) st) = Inr (b\<lparr>status := Cancelled\<rparr>)
            \<and> findById (bookings (snd (put_cancel u (Given i) st))) i = Some (b\<lparr>status := Cancelled\<rparr>))
       \<and> (user_role u = ''admin'' \<and> status_of_string s = Some x \<longrightarrow>
            fst (updateBooking u (Given i) s now st) = Inr (b\<lparr>status := x\<rparr>)
            \<and> findById (bookings (snd (updateBooking u (Given i) s now st))) i = Some (b\<lparr>status := x\<rparr>))
       \<and> (user_role u \<noteq> ''admin'' \<and> fst (updateBooking u (Given i) s now st) = Inr b' \<longrightarrow>
            b' = b\<lparr>status := Cancelled\<rparr> \<and> userId b = user_id u \<and> now < startDate b)"
proof -
  have sv: "\<exists>st'. saveBooking i (b\<lparr>status := x\<rparr>) st = Some st'
               \<and> findById (bookings st') i = Some (b\<lparr>status := x\<rparr>)" for x
    using assms by (rule saveBooking_status)
  have approve: "fst (put_approve u (Given i) st) = Inr (b\<lparr>status := Active\<rparr>)
       \<and> findById (bookings (snd (put_approve u (Given i) st))) i = Some (b\<lparr>status := Active\<rparr>)"
    using assms(1) sv [of Active] by (auto simp add: put_approve_def)
  have reject: "fst (put_reject u (Given i) st) = Inr (b\<lparr>status := Cancelled\<rparr>)
       \<and> findById (bookings (snd (put_reject u (Given i) st))) i = Some (b\<lparr>status := Cancelled\<rparr>)"
    using assms(1) sv [of Cancelled] by (auto simp add: put_reject_def)
  have cancel: "userId b = user_id u \<or> user_role u = ''admin'' \<longrightarrow>
            fst (put_cancel u (Given i) st) = Inr (b\<lparr>status := Cancelled\<rparr>)
            \<and> findById (bookings (snd (put_cancel u (Given i) st))) i = Some (b\<lparr>status := Cancelled\<rparr>)"
    using assms(1) sv [of Cancelled] by (auto simp add: put_cancel_def)
  have adm: "user_role u = ''admin'' \<and> status_of_string s = Some x \<longrightarrow>
            fst (updateBooking u (Given i) s now st) = Inr (b\<lparr>status := x\<rparr>)
            \<and> findById (bookings (snd (updateBooking u (Given i) s now st))) i = Some (b\<lparr>status := x\<rparr>)"
    using assms(1) sv [of x] by (auto simp add: updateBooking_def)
  have c: "status_of_string ''cancelled'' = Some Cancelled"
    by (simp add: status_of_string_def)
  have usr: "user_role u \<noteq> ''admin'' \<and> fst (updateBooking u (Given i) s now st) = Inr b' \<longrightarrow>
            b' = b\<lparr>status := Cancelled\<rparr> \<and> userId b = user_id u \<and> now < startDate b"
    using assms(1) sv [of Cancelled] c
    by (auto simp add: updateBooking_def split: if_splits)
  from approve reject cancel adm usr show ?thesis by blast
qed

theorem status_set_whatever_it_was_witness:
  "findById (bookings cancelled0) 1 = Some (booking100\<lparr>status := Cancelled\<rparr>) \<and>
   fst (put_approve bob (Given 1) cancelled0) = Inr (booking100\<lparr>status := Active\<rparr>) \<and>
   fst (updateBooking admin (Given 1) ''pending'' jan5 cancelled0) = Inr (booking100\<lparr>status := Pending\<rparr>)"
proof -
  have f: "findById (bookings cancelled0) 1 = Some (booking100\<lparr>status := Cancelled\<rparr>)"
    by (simp add: cancelled0_def taken0_def findById_def)
  have v: "booking_valid (booking100\<lparr>status := Cancelled\<rparr>)"
    by (simp add: booking_valid_def booking100_def jan1_def jan3_def)
  have s: "user_role admin = ''admin''" "status_of_string ''pending'' = Some Pending"
    by (simp_all add: admin_def status_of_string_def)
  from status_set_whatever_it_was [OF f v, of bob] status_set_whatever_it_was [OF f v, of admin "''pending''" Pending jan5] s f
  show ?thesis by simp
qed

text \<open>
  C7 as stated fails: approving a cancelled booking makes it active.
\<close>

theorem put_approve_revives_cancelled:
  "findById (bookings cancelled0) 1 = Some (booking100\<lparr>status := Cancelled\<rparr>) \<and>
   fst (put_approve bob (Given 1) cancelled0) = Inr (booking100\<lparr>status := Active\<rparr>) \<and>
   findById (bookings (snd (put_approve bob (Given 1) cancelled0))) 1
     = Some (booking100\<lparr>status := Active\<rparr>)"
  by (simp add: put_approve_def cancelled0_def
      taken0_def ex_defs booking_valid_def Let_def
      findById_def saveBooking_def replaceById_def)

section \<open>Reviews and the car's rating\<close>

lemma Math_round_of_int: "Math_round (of_int n) = n"
  unfolding Math_round_def by (rule floor_unique) simp_all

lemma Math_round_numeral: "Math_round (numeral k) = numeral k"
  using Math_round_of_int [of "numeral k"] by simp

text \<open>A creation and a deletion leave the car of the review with the average and the
  count of its reviews.\<close>

lemma Review_create_Inr:
  assumes "fst (Review_create uid uname cid rt cm st) = Inr (i, r)"
  shows "r_carId r = cid \<and>
         snd (Review_create uid uname cid rt cm st)
           = getAverageRating cid (st\<lparr>reviews := reviews st @ [(i, r)]\<rparr>)"
proof (cases uid)
  case None
  with assms show ?thesis by (simp add: Review_create_def)
next
  case w: (Some w)
  show ?thesis
  proof (cases uname)
    case None
    with assms w show ?thesis by (simp add: Review_create_def)
  next
    case n: (Some n)
    show ?thesis
    proof (cases rt)
      case Absent
      with assms w n show ?thesis by (simp add: Review_create_def)
    next
      case Malformed
      with assms w n show ?thesis by (simp add: Review_create_def)
    next
      case x: (Given x)
      show ?thesis
      proof (cases cm)
        case None
        with assms w n x show ?thesis by (simp add: Review_create_def)
      next
        case (Some c)
        with assms w n x show ?thesis
          by (auto simp add: Review_create_def Let_def split: if_splits)
      qed
    qed
  qed
qed

lemma createReview_Inr:
  assumes "fst (createReview u n bd st) = Inr (i, r)"
  shows "\<exists>uid uname. createReview u n bd st
           = Review_create uid uname (r_carId r) (rating_in bd) (comment_in bd) st"
proof (cases "carId_in bd")
  case Absent
  with assms show ?thesis by (simp add: createReview_def)
next
  case Malformed
  with assms show ?thesis by (simp add: createReview_def)
next
  case (Given cid)
  show ?thesis
  proof (cases "cars st cid")
    case None
    with assms Given show ?thesis by (simp add: createReview_def)
  next
    case c: (Some c)
    show ?thesis
    proof (cases u)
      case None
      with assms Given c have e: "createReview u n bd st
          = Review_create (userId_in bd) (userName_in bd) cid (rating_in bd) (comment_in bd) st"
        by (simp add: createReview_def)
      with assms have "r_carId r = cid" using Review_create_Inr by metis
      with e show ?thesis by blast
    next
      case (Some usr)
      with assms Given c have e: "createReview u n bd st
          = Review_create (Some (user_id usr)) (Some n) cid (rating_in bd) (comment_in bd) st"
        by (simp add: createReview_def split: if_splits)
      with assms have "r_carId r = cid" using Review_create_Inr by metis
      with e show ?thesis by blast
    qed
  qed
qed

lemma createReview_recomputes:
  assumes "fst (createReview u n bd st) = Inr (i, r)" and "cars st (r_carId r) = Some c"
  shows "\<exists>c'. cars (snd (createReview u n bd st)) (r_carId r) = Some c'
           \<and> rating c' = avgRating (reviewsOf (r_carId r) (snd (createReview u n bd st)))
           \<and> numberOfReviews c' = int (length (reviewsOf (r_carId r) (snd (createReview u n bd st))))"
proof -
  from createReview_Inr [OF assms(1)] obtain uid uname where
    rc: "createReview u n bd st
           = Review_create uid uname (r_carId r) (rating_in bd) (comment_in bd) st"
    by blast
  with assms(1) have
    "snd (createReview u n bd st)
       = getAverageRating (r_carId r) (st\<lparr>reviews := reviews st @ [(i, r)]\<rparr>)"
    using Review_create_Inr [of uid uname "r_carId r" "rating_in bd" "comment_in bd" st i r]
    by simp
  then show ?thesis using assms(2)
    by (simp add: getAverageRating_def reviewsOf_def Let_def)
qed

lemma deleteReview_recomputes:
  assumes "findById (reviews st) i = Some r" and "cars st (r_carId r) = Some c"
    and "r_userId r = user_id u \<or> user_role u = ''admin''"
  shows "\<exists>c'. cars (snd (deleteReview u (Given i) st)) (r_carId r) = Some c'
           \<and> rating c' = avgRating (reviewsOf (r_carId r) (snd (deleteReview u (Given i) st)))
           \<and> numberOfReviews c' = int (length (reviewsOf (r_carId r) (snd (deleteReview u (Given i) st))))"
proof -
  have "snd (deleteReview u (Given i) st)
          = getAverageRating (r_carId r) (st\<lparr>reviews := deleteById (reviews st) i\<rparr>)"
    using assms(1,3) by (auto simp add: deleteReview_def)
  then show ?thesis using assms(2)
    by (simp add: getAverageRating_def reviewsOf_def Let_def)
qed

text \<open>
  C5, evaluated on the code. Alice reviews car 1 with 5; car 1 then has rating 5 and one
  review. She updates her review with a body that sets \<open>carId\<close> to car 2: the hook
  recomputes car 2 only, so car 1 keeps rating 5 and one review although no review of
  car 1 is left.
\<close>

theorem moved_review_leaves_stale_rating:
  "(let st1 = snd (createReview (Some alice) ''Alice'' praise twocars);
        st2 = snd (updateReview alice (Given 1) move_to_2 st1)
    in reviewsOf 1 st1 = [(1, \<lparr> r_userId = 7, r_carId = 1, r_rating = 5, r_comment = ''great'' \<rparr>)]
       \<and> reviewsOf 1 st2 = []
       \<and> reviewsOf 2 st2 = [(1, \<lparr> r_userId = 7, r_carId = 2, r_rating = 5, r_comment = ''great'' \<rparr>)]
       \<and> map_option rating (cars st2 1) = Some 5
       \<and> map_option numberOfReviews (cars st2 1) = Some 1)"
  by (simp add: createReview_def Review_create_def updateReview_def twocars_def praise_def
      move_to_2_def ex_defs Let_def new_id_def pairTaken_def trim_def whitespace_def
      getAverageRating_def reviewsOf_def avgRating_def Math_round_numeral findById_def
      update_valid_def applyUpdate_def replaceById_def)


lemma reviews_getAverageRating: "reviews (getAverageRating cid st) = reviews st"
  by (simp add: getAverageRating_def Let_def split: option.splits)

lemma reviewsOf_getAverageRating: "reviewsOf k (getAverageRating cid st) = reviewsOf k st"
  by (simp add: reviewsOf_def reviews_getAverageRating)










































end
